theory Spec2Isabelle
  imports Main
begin

section \<open>The data of common/channelconfig/bundlesource.go\<close>

text \<open>
  Objects live in a heap and are named by their address; a Go pointer or interface
  reference is \<open>None\<close> when it is nil and \<open>Some a\<close> when it refers to the object at
  address \<open>a\<close>.
\<close>

type_synonym addr = nat
type_synonym ref = "addr option"

text \<open>The run-time panics the file can raise.\<close>

datatype panic =
    NilDereference
  | StoreOfNilValue
  | StoreOfInconsistentType
  | InterfaceConversion

text \<open>
  Modelled from the spec: the declaration of \<open>oldchannelconfig.Root\<close> and its methods
  \<open>Channel()\<close>, \<open>Orderer()\<close>, \<open>Consortiums()\<close> and \<open>Application()\<close> are not part of the
  source at hand. The spec describes the root configuration component as exposing the
  general channel parameters and three optional sub-views (ordering service, consortiums,
  application); each method is the read of one reference, nil when the view is absent.
\<close>

record Root =
  Channel :: ref
  Orderer :: ref
  Consortiums :: ref
  Application :: ref

text \<open>
  Modelled from the spec: the declaration of the struct \<open>Bundle\<close> is not part of the source
  at hand. Its fields are the four that bundlesource.go reads: \<open>policyManager\<close>,
  \<open>mspManager\<close>, \<open>rootConfig\<close> and \<open>configtxManager\<close>; the components they refer to are
  opaque to this file, which only passes the references on.
\<close>

record Bundle =
  policyManager :: ref
  mspManager :: ref
  rootConfig :: Root
  configtxManager :: ref

text \<open>
  A value of type \<open>interface{}\<close>: nil, or a dynamic type with its payload. The only
  dynamic type bundlesource.go ever creates is \<open>*Bundle\<close>, whose payload is a pointer that
  may itself be nil; \<open>OtherDyn t x\<close> stands for a value \<open>x\<close> of any other dynamic type \<open>t\<close>.
\<close>

datatype iface = NilIface | BundlePtr ref | OtherDyn nat nat

datatype dyn_type = BundlePtrT | OtherT nat

fun dyn_type_of :: "iface \<Rightarrow> dyn_type option" where
  "dyn_type_of NilIface = None"
| "dyn_type_of (BundlePtr p) = Some BundlePtrT"
| "dyn_type_of (OtherDyn t x) = Some (OtherT t)"

text \<open>
  \<open>type BundleSource struct { bundle atomic.Value }\<close>. An \<open>atomic.Value\<close> is the interface
  value it holds: nil until the first \<open>Store\<close>. The field \<open>bundle\<close> is named \<open>bundle_field\<close>
  here.
\<close>

record BundleSource =
  bundle_field :: iface

record heap =
  bundles :: "Bundle list"
  sources :: "BundleSource list"

section \<open>sync/atomic.Value and the type assertion\<close>

text \<open>
  \<open>Value.Store(x)\<close> panics when \<open>x\<close> is nil and when the dynamic type of \<open>x\<close> differs from
  the one of the value stored before; otherwise the Value holds \<open>x\<close>. \<open>Value.Load()\<close>
  returns what the Value holds, nil when nothing was stored.
\<close>

definition Value_Store :: "iface \<Rightarrow> iface \<Rightarrow> panic + iface" where
  "Value_Store v x =
     (if x = NilIface then Inl StoreOfNilValue
      else if v \<noteq> NilIface \<and> dyn_type_of v \<noteq> dyn_type_of x then Inl StoreOfInconsistentType
      else Inr x)"

definition Value_Load :: "iface \<Rightarrow> iface" where
  "Value_Load v = v"

text \<open>The unchecked assertion \<open>x.(*Bundle)\<close>.\<close>

fun assert_BundlePtr :: "iface \<Rightarrow> panic + ref" where
  "assert_BundlePtr (BundlePtr p) = Inr p"
| "assert_BundlePtr NilIface = Inl InterfaceConversion"
| "assert_BundlePtr (OtherDyn t x) = Inl InterfaceConversion"

text \<open>Sequencing of two steps, the second skipped when the first panics.\<close>

definition and_then :: "panic + 'a \<Rightarrow> ('a \<Rightarrow> panic + 'b) \<Rightarrow> panic + 'b" where
  "and_then r f = (case r of Inl e \<Rightarrow> Inl e | Inr x \<Rightarrow> f x)"

text \<open>Reading through a pointer: a nil pointer, or one to no object, panics.\<close>

definition Bundle_deref :: "ref \<Rightarrow> heap \<Rightarrow> panic + Bundle" where
  "Bundle_deref p h =
     (case p of
        None \<Rightarrow> Inl NilDereference
      | Some a \<Rightarrow> if a < length (bundles h) then Inr (bundles h ! a) else Inl NilDereference)"

definition BundleSource_deref :: "ref \<Rightarrow> heap \<Rightarrow> panic + BundleSource" where
  "BundleSource_deref bs h =
     (case bs of
        None \<Rightarrow> Inl NilDereference
      | Some a \<Rightarrow> if a < length (sources h) then Inr (sources h ! a) else Inl NilDereference)"

text \<open>\<open>bs.bundle.Store(x)\<close> and \<open>bs.bundle.Load()\<close> on a pointer \<open>bs\<close> to a source.\<close>

definition bundle_Store :: "ref \<Rightarrow> iface \<Rightarrow> heap \<Rightarrow> panic + heap" where
  "bundle_Store bs x h =
     (case bs of
        None \<Rightarrow> Inl NilDereference
      | Some a \<Rightarrow>
          and_then (BundleSource_deref bs h) (\<lambda>src.
          and_then (Value_Store (bundle_field src) x) (\<lambda>v.
            Inr (h\<lparr>sources := (sources h)[a := src\<lparr>bundle_field := v\<rparr>]\<rparr>))))"

definition bundle_Load :: "ref \<Rightarrow> heap \<Rightarrow> panic + iface" where
  "bundle_Load bs h =
     and_then (BundleSource_deref bs h) (\<lambda>src. Inr (Value_Load (bundle_field src)))"

section \<open>The functions of bundlesource.go\<close>

text \<open>
  \<open>bs := &BundleSource{}\<close> allocates a source with an empty Value at a fresh address;
  \<open>bs.bundle.Store(bundle)\<close> converts the pointer to an interface value of dynamic type
  \<open>*Bundle\<close> and stores it.
\<close>

definition NewBundleSource :: "ref \<Rightarrow> heap \<Rightarrow> panic + (ref \<times> heap)" where
  "NewBundleSource b h =
     (let bs = Some (length (sources h));
          h1 = h\<lparr>sources := sources h @ [\<lparr>bundle_field = NilIface\<rparr>]\<rparr>
      in and_then (bundle_Store bs (BundlePtr b) h1) (\<lambda>h2. Inr (bs, h2)))"

definition Update :: "ref \<Rightarrow> ref \<Rightarrow> heap \<Rightarrow> panic + heap" where
  "Update bs newBundle h = bundle_Store bs (BundlePtr newBundle) h"

definition StableBundle :: "ref \<Rightarrow> heap \<Rightarrow> panic + ref" where
  "StableBundle bs h = and_then (bundle_Load bs h) assert_BundlePtr"

definition PolicyManager :: "ref \<Rightarrow> heap \<Rightarrow> panic + ref" where
  "PolicyManager bs h =
     and_then (StableBundle bs h) (\<lambda>p.
     and_then (Bundle_deref p h) (\<lambda>b. Inr (policyManager b)))"

definition MSPManager :: "ref \<Rightarrow> heap \<Rightarrow> panic + ref" where
  "MSPManager bs h =
     and_then (StableBundle bs h) (\<lambda>p.
     and_then (Bundle_deref p h) (\<lambda>b. Inr (mspManager b)))"

definition ChannelConfig :: "ref \<Rightarrow> heap \<Rightarrow> panic + ref" where
  "ChannelConfig bs h =
     and_then (StableBundle bs h) (\<lambda>p.
     and_then (Bundle_deref p h) (\<lambda>b. Inr (Channel (rootConfig b))))"

definition OrdererConfig :: "ref \<Rightarrow> heap \<Rightarrow> panic + (ref \<times> bool)" where
  "OrdererConfig bs h =
     and_then (StableBundle bs h) (\<lambda>p.
     and_then (Bundle_deref p h) (\<lambda>b.
       let result = Orderer (rootConfig b) in Inr (result, result \<noteq> None)))"

definition ConsortiumsConfig :: "ref \<Rightarrow> heap \<Rightarrow> panic + (ref \<times> bool)" where
  "ConsortiumsConfig bs h =
     and_then (StableBundle bs h) (\<lambda>p.
     and_then (Bundle_deref p h) (\<lambda>b.
       let result = Consortiums (rootConfig b) in Inr (result, result \<noteq> None)))"

definition ApplicationConfig :: "ref \<Rightarrow> heap \<Rightarrow> panic + (ref \<times> bool)" where
  "ApplicationConfig bs h =
     and_then (StableBundle bs h) (\<lambda>p.
     and_then (Bundle_deref p h) (\<lambda>b.
       let result = Application (rootConfig b) in Inr (result, result \<noteq> None)))"

definition ConfigtxManager :: "ref \<Rightarrow> heap \<Rightarrow> panic + ref" where
  "ConfigtxManager bs h =
     and_then (StableBundle bs h) (\<lambda>p.
     and_then (Bundle_deref p h) (\<lambda>b. Inr (configtxManager b)))"

text \<open>A finite sequence of \<open>Update\<close> calls on one source, stopped by the first panic.\<close>

fun Updates :: "ref \<Rightarrow> ref list \<Rightarrow> heap \<Rightarrow> panic + heap" where
  "Updates bs [] h = Inr h"
| "Updates bs (n # ns) h = and_then (Update bs n h) (Updates bs ns)"


section \<open>The end-to-end scenario\<close>

text \<open>
  Two bundles with distinguishable components: \<open>bundle_v1\<close> has an ordering-service view,
  \<open>bundle_v2\<close> has none. In \<open>heap_v\<close> they are the objects at addresses 0 and 1 and no
  source exists yet; \<open>heap_v1\<close> is the heap after \<open>NewBundleSource\<close> with \<open>bundle_v1\<close>,
  \<open>heap_v2\<close> the heap after the source was updated to \<open>bundle_v2\<close>.
\<close>

definition bundle_v1 :: Bundle where
  "bundle_v1 =
     \<lparr>policyManager = Some 10, mspManager = Some 11,
      rootConfig = \<lparr>Channel = Some 12, Orderer = Some 13, Consortiums = None,
                    Application = Some 14\<rparr>,
      configtxManager = Some 15\<rparr>"

definition bundle_v2 :: Bundle where
  "bundle_v2 =
     \<lparr>policyManager = Some 20, mspManager = Some 21,
      rootConfig = \<lparr>Channel = Some 22, Orderer = None, Consortiums = Some 23,
                    Application = None\<rparr>,
      configtxManager = Some 25\<rparr>"

definition heap_v :: heap where
  "heap_v = \<lparr>bundles = [bundle_v1, bundle_v2], sources = []\<rparr>"

definition heap_v1 :: heap where
  "heap_v1 = \<lparr>bundles = [bundle_v1, bundle_v2], sources = [\<lparr>bundle_field = BundlePtr (Some 0)\<rparr>]\<rparr>"

definition heap_v2 :: heap where
  "heap_v2 = \<lparr>bundles = [bundle_v1, bundle_v2], sources = [\<lparr>bundle_field = BundlePtr (Some 1)\<rparr>]\<rparr>"

definition heap_nil :: heap where
  "heap_nil = \<lparr>bundles = [bundle_v1, bundle_v2], sources = [\<lparr>bundle_field = BundlePtr None\<rparr>]\<rparr>"

section \<open>Basic facts\<close>

lemma and_then_Inr [simp]: "and_then (Inr x) f = f x"
  by (simp add: and_then_def)

lemma and_then_Inl [simp]: "and_then (Inl e) f = Inl e"
  by (simp add: and_then_def)

lemma and_then_eq_Inr:
  "and_then r f = Inr y \<longleftrightarrow> (\<exists>x. r = Inr x \<and> f x = Inr y)"
  by (cases r) simp_all

lemma BundleSource_deref_Inr:
  "BundleSource_deref bs h = Inr src \<longleftrightarrow>
     (\<exists>a. bs = Some a \<and> a < length (sources h) \<and> src = sources h ! a)"
  by (auto simp: BundleSource_deref_def split: option.splits)

lemma Value_Store_BundlePtr:
  "Value_Store v (BundlePtr p) = Inr w \<longleftrightarrow>
     (v = NilIface \<or> (\<exists>q. v = BundlePtr q)) \<and> w = BundlePtr p"
  by (cases v) (auto simp: Value_Store_def)

lemma BundleSource_update [simp]:
  "(src :: BundleSource)\<lparr>bundle_field := v\<rparr> = \<lparr>bundle_field = v\<rparr>"
  by (cases src) simp

lemma Update_Inr:
  "Update bs n h = Inr h' \<longleftrightarrow>
     (\<exists>a. bs = Some a \<and> a < length (sources h) \<and>
          (bundle_field (sources h ! a) = NilIface \<or>
           (\<exists>q. bundle_field (sources h ! a) = BundlePtr q)) \<and>
          h' = h\<lparr>sources := (sources h)[a := \<lparr>bundle_field = BundlePtr n\<rparr>]\<rparr>)"
  by (cases bs)
    (auto simp: Update_def bundle_Store_def and_then_eq_Inr BundleSource_deref_Inr
      Value_Store_BundlePtr)

lemma StableBundle_at:
  "a < length (sources h) \<Longrightarrow>
   StableBundle (Some a) h = assert_BundlePtr (bundle_field (sources h ! a))"
  by (simp add: StableBundle_def bundle_Load_def BundleSource_deref_def Value_Load_def)

lemma StableBundle_Inr:
  "StableBundle bs h = Inr p \<longleftrightarrow>
     (\<exists>a. bs = Some a \<and> a < length (sources h) \<and> bundle_field (sources h ! a) = BundlePtr p)"
proof (cases bs)
  case None
  then show ?thesis
    by (simp add: StableBundle_def bundle_Load_def BundleSource_deref_def)
next
  case (Some a)
  show ?thesis
  proof (cases "a < length (sources h)")
    case True
    then show ?thesis
      using Some by (cases "bundle_field (sources h ! a)") (simp_all add: StableBundle_at)
  next
    case False
    then show ?thesis
      using Some by (simp add: StableBundle_def bundle_Load_def BundleSource_deref_def)
  qed
qed

lemma NewBundleSource_eq:
  "NewBundleSource b h =
     Inr (Some (length (sources h)),
          h\<lparr>sources := sources h @ [\<lparr>bundle_field = BundlePtr b\<rparr>]\<rparr>)"
  by (simp add: NewBundleSource_def Let_def bundle_Store_def BundleSource_deref_def
      Value_Store_def)

lemma StableBundle_Update:
  "Update bs n h = Inr h' \<Longrightarrow> StableBundle bs h' = Inr n"
  by (auto simp: Update_Inr StableBundle_at)

lemma Update_after_StableBundle:
  "StableBundle bs h = Inr p \<Longrightarrow> \<exists>h'. Update bs n h = Inr h'"
  by (auto simp: StableBundle_Inr Update_Inr)

lemma Update_bundles: "Update bs n h = Inr h' \<Longrightarrow> bundles h' = bundles h"
  by (auto simp: Update_Inr)

lemma Bundle_deref_cong: "bundles h' = bundles h \<Longrightarrow> Bundle_deref p h' = Bundle_deref p h"
  by (cases p) (simp_all add: Bundle_deref_def)

lemma Updates_from_BundlePtr:
  "a < length (sources h) \<Longrightarrow> bundle_field (sources h ! a) = BundlePtr p \<Longrightarrow>
   \<exists>h'. Updates (Some a) ns h = Inr h' \<and> a < length (sources h') \<and>
        bundle_field (sources h' ! a) = BundlePtr (last (p # ns)) \<and> bundles h' = bundles h"
proof (induction ns arbitrary: h p)
  case Nil
  then show ?case by simp
next
  case (Cons n ns)
  let ?h1 = "h\<lparr>sources := (sources h)[a := \<lparr>bundle_field = BundlePtr n\<rparr>]\<rparr>"
  have step: "Update (Some a) n h = Inr ?h1"
    using Cons.prems by (simp add: Update_Inr)
  have "a < length (sources ?h1)" "bundle_field (sources ?h1 ! a) = BundlePtr n"
    using Cons.prems by simp_all
  from Cons.IH [OF this] obtain h' where
    "Updates (Some a) ns ?h1 = Inr h'" "a < length (sources h')"
    "bundle_field (sources h' ! a) = BundlePtr (last (n # ns))" "bundles h' = bundles ?h1"
    by blast
  then show ?case
    using step by simp
qed

lemma Updates_after_New:
  "\<exists>h'. Updates (Some (length (sources h))) ns
          (h\<lparr>sources := sources h @ [\<lparr>bundle_field = BundlePtr b\<rparr>]\<rparr>) = Inr h' \<and>
        length (sources h) < length (sources h') \<and>
        bundle_field (sources h' ! length (sources h)) = BundlePtr (last (b # ns))"
proof -
  let ?h0 = "h\<lparr>sources := sources h @ [\<lparr>bundle_field = BundlePtr b\<rparr>]\<rparr>"
  have "length (sources h) < length (sources ?h0)"
    "bundle_field (sources ?h0 ! length (sources h)) = BundlePtr b"
    by simp_all
  from Updates_from_BundlePtr [OF this, of ns] show ?thesis
    by blast
qed

lemma accessors_on:
  assumes "StableBundle bs h = Inr p" and "Bundle_deref p h = Inr b"
  shows "PolicyManager bs h = Inr (policyManager b)"
    and "MSPManager bs h = Inr (mspManager b)"
    and "ChannelConfig bs h = Inr (Channel (rootConfig b))"
    and "OrdererConfig bs h = Inr (Orderer (rootConfig b), Orderer (rootConfig b) \<noteq> None)"
    and "ConsortiumsConfig bs h =
           Inr (Consortiums (rootConfig b), Consortiums (rootConfig b) \<noteq> None)"
    and "ApplicationConfig bs h =
           Inr (Application (rootConfig b), Application (rootConfig b) \<noteq> None)"
    and "ConfigtxManager bs h = Inr (configtxManager b)"
  using assms
  by (simp_all add: PolicyManager_def MSPManager_def ChannelConfig_def OrdererConfig_def
      ConsortiumsConfig_def ApplicationConfig_def ConfigtxManager_def Let_def)

lemma accessors_panic:
  assumes "StableBundle bs h = Inl e"
  shows "PolicyManager bs h = Inl e"
    and "MSPManager bs h = Inl e"
    and "ChannelConfig bs h = Inl e"
    and "OrdererConfig bs h = Inl e"
    and "ConsortiumsConfig bs h = Inl e"
    and "ApplicationConfig bs h = Inl e"
    and "ConfigtxManager bs h = Inl e"
  using assms
  by (simp_all add: PolicyManager_def MSPManager_def ChannelConfig_def OrdererConfig_def
      ConsortiumsConfig_def ApplicationConfig_def ConfigtxManager_def)

lemma accessors_on_nil:
  assumes "StableBundle bs h = Inr None"
  shows "PolicyManager bs h = Inl NilDereference"
    and "MSPManager bs h = Inl NilDereference"
    and "ChannelConfig bs h = Inl NilDereference"
    and "OrdererConfig bs h = Inl NilDereference"
    and "ConsortiumsConfig bs h = Inl NilDereference"
    and "ApplicationConfig bs h = Inl NilDereference"
    and "ConfigtxManager bs h = Inl NilDereference"
  using assms
  by (simp_all add: PolicyManager_def MSPManager_def ChannelConfig_def OrdererConfig_def
      ConsortiumsConfig_def ApplicationConfig_def ConfigtxManager_def Bundle_deref_def)

text \<open>The scenario, step by step.\<close>

lemma scenario_New: "NewBundleSource (Some 0) heap_v = Inr (Some 0, heap_v1)"
  by (simp add: NewBundleSource_eq heap_v_def heap_v1_def)

lemma scenario_Update: "Update (Some 0) (Some 1) heap_v1 = Inr heap_v2"
  by (simp add: Update_Inr heap_v1_def heap_v2_def)

lemma scenario_StableBundle:
  "StableBundle (Some 0) heap_v1 = Inr (Some 0)"
  "StableBundle (Some 0) heap_v2 = Inr (Some 1)"
  "StableBundle (Some 0) heap_nil = Inr None"
  by (simp_all add: StableBundle_at heap_v1_def heap_v2_def heap_nil_def)

lemma scenario_deref:
  "Bundle_deref (Some 0) heap_v1 = Inr bundle_v1"
  "Bundle_deref (Some 1) heap_v1 = Inr bundle_v2"
  "Bundle_deref (Some 0) heap_v2 = Inr bundle_v1"
  "Bundle_deref (Some 1) heap_v2 = Inr bundle_v2"
  by (simp_all add: Bundle_deref_def heap_v1_def heap_v2_def)

lemma bundle_v1_fields:
  "policyManager bundle_v1 = Some 10" "mspManager bundle_v1 = Some 11"
  "Channel (rootConfig bundle_v1) = Some 12" "Orderer (rootConfig bundle_v1) = Some 13"
  "Consortiums (rootConfig bundle_v1) = None" "Application (rootConfig bundle_v1) = Some 14"
  "configtxManager bundle_v1 = Some 15"
  by (simp_all add: bundle_v1_def)

lemma bundle_v2_fields:
  "policyManager bundle_v2 = Some 20" "mspManager bundle_v2 = Some 21"
  "Channel (rootConfig bundle_v2) = Some 22" "Orderer (rootConfig bundle_v2) = None"
  "Consortiums (rootConfig bundle_v2) = Some 23" "Application (rootConfig bundle_v2) = None"
  "configtxManager bundle_v2 = Some 25"
  by (simp_all add: bundle_v2_def)

lemma StableBundle_nil_source: "StableBundle None h = Inl NilDereference"
  by (simp add: StableBundle_def bundle_Load_def BundleSource_deref_def)

lemma StableBundle_New:
  "StableBundle (Some (length (sources h)))
     (h\<lparr>sources := sources h @ [\<lparr>bundle_field = BundlePtr b\<rparr>]\<rparr>) = Inr b"
  by (simp add: StableBundle_at)

lemma Update_at:
  "a < length (sources h) \<Longrightarrow> bundle_field (sources h ! a) = BundlePtr q \<Longrightarrow>
   Update (Some a) n h = Inr (h\<lparr>sources := (sources h)[a := \<lparr>bundle_field = BundlePtr n\<rparr>]\<rparr>)"
  by (simp add: Update_Inr)

lemma scenario_Update_nil: "Update (Some 0) None heap_v1 = Inr heap_nil"
  by (simp add: Update_Inr heap_v1_def heap_nil_def)

lemma scenario_New_nil: "NewBundleSource None heap_v = Inr (Some 0, heap_nil)"
  by (simp add: NewBundleSource_eq heap_v_def heap_nil_def)

lemma scenario_Updates: "Updates (Some 0) [Some 1, Some 0, Some 1] heap_v1 = Inr heap_v2"
  by (simp add: Update_at heap_v1_def heap_v2_def)

section \<open>What is read is what was last installed\<close>

text \<open>
  C1. \<open>StableBundle\<close> on a source just built by \<open>NewBundleSource b\<close> returns exactly \<open>b\<close>,
  and after a completed \<open>Update bs n\<close> it returns exactly \<open>n\<close>. \<open>StableBundle\<close> only reads:
  it returns no heap, so every later call without an \<open>Update\<close> in between is the same call
  on the same heap.
\<close>

theorem StableBundle_returns_installed:
  "(\<exists>bs h'. NewBundleSource b h = Inr (bs, h') \<and> StableBundle bs h' = Inr b) \<and>
   (Update bs0 n h0 = Inr h1 \<longrightarrow> StableBundle bs0 h1 = Inr n)"
  by (simp add: NewBundleSource_eq StableBundle_at StableBundle_Update)

text \<open>
  The scenario of the spec: built with v1, the source reads v1; updated to v2, it reads
  v2 and reports no ordering-service view.
\<close>

theorem StableBundle_returns_installed_witness:
  "NewBundleSource (Some 0) heap_v = Inr (Some 0, heap_v1) \<and>
   StableBundle (Some 0) heap_v1 = Inr (Some 0) \<and>
   Update (Some 0) (Some 1) heap_v1 = Inr heap_v2 \<and>
   StableBundle (Some 0) heap_v2 = Inr (Some 1) \<and>
   OrdererConfig (Some 0) heap_v2 = Inr (None, False)"
proof -
  have new: "NewBundleSource (Some 0) heap_v = Inr (Some 0, heap_v1)"
    by (rule scenario_New)
  have upd: "Update (Some 0) (Some 1) heap_v1 = Inr heap_v2"
    by (rule scenario_Update)
  from StableBundle_returns_installed [of "Some 0" heap_v "Some 0" "Some 1" heap_v1 heap_v2]
  have "StableBundle (Some 0) heap_v1 = Inr (Some 0)" "StableBundle (Some 0) heap_v2 = Inr (Some 1)"
    using new upd by simp_all
  moreover have "OrdererConfig (Some 0) heap_v2 = Inr (None, False)"
    using accessors_on(4) [OF scenario_StableBundle(2) scenario_deref(4)]
    by (simp add: bundle_v2_def)
  ultimately show ?thesis
    using new upd by simp
qed

section \<open>A handle outlives the update\<close>

text \<open>
  C3. A handle \<open>p\<close> obtained by one \<open>StableBundle\<close> call is left unchanged by a later
  \<open>Update\<close>: the update writes the slot of the source only, no \<open>Bundle\<close> object, so every
  read through \<open>p\<close> gives after the update what it gave before.
\<close>

theorem Update_leaves_handle_unchanged:
  "StableBundle bs h = Inr p \<Longrightarrow> Update bs n h = Inr h' \<Longrightarrow>
   bundles h' = bundles h \<and> Bundle_deref p h' = Bundle_deref p h"
proof -
  assume "Update bs n h = Inr h'"
  then have "bundles h' = bundles h"
    by (rule Update_bundles)
  then show ?thesis
    using Bundle_deref_cong [of h' h p] by simp
qed

text \<open>
  The handle taken while v1 was current still reads v1 after the source moved to v2.
\<close>

theorem Update_leaves_handle_unchanged_witness:
  "StableBundle (Some 0) heap_v1 = Inr (Some 0) \<and>
   Update (Some 0) (Some 1) heap_v1 = Inr heap_v2 \<and>
   StableBundle (Some 0) heap_v2 = Inr (Some 1) \<and>
   Bundle_deref (Some 0) heap_v2 = Inr bundle_v1 \<and>
   bundle_v1 \<noteq> bundle_v2"
proof -
  have "Bundle_deref (Some 0) heap_v2 = Bundle_deref (Some 0) heap_v1"
    using Update_leaves_handle_unchanged [OF scenario_StableBundle(1) scenario_Update]
    by (rule conjunct2)
  then have "Bundle_deref (Some 0) heap_v2 = Inr bundle_v1"
    by (simp only: scenario_deref(1))
  moreover have "bundle_v1 \<noteq> bundle_v2"
    by (simp add: bundle_v1_def bundle_v2_def)
  ultimately show ?thesis
    using scenario_StableBundle(1,2) scenario_Update by blast
qed

section \<open>The convenience accessors\<close>

text \<open>
  C4. Each convenience accessor of the source returns what the same read gives on the
  bundle that \<open>StableBundle\<close> returns at that moment: the field, or the sub-view of the
  root configuration, of that one bundle; and when \<open>StableBundle\<close> panics, the accessor
  panics in the same way.
\<close>

theorem accessors_read_the_stable_bundle:
  "(StableBundle bs h = Inr p \<and> Bundle_deref p h = Inr b \<longrightarrow>
      PolicyManager bs h = Inr (policyManager b) \<and>
      MSPManager bs h = Inr (mspManager b) \<and>
      ChannelConfig bs h = Inr (Channel (rootConfig b)) \<and>
      OrdererConfig bs h = Inr (Orderer (rootConfig b), Orderer (rootConfig b) \<noteq> None) \<and>
      ConsortiumsConfig bs h =
        Inr (Consortiums (rootConfig b), Consortiums (rootConfig b) \<noteq> None) \<and>
      ApplicationConfig bs h =
        Inr (Application (rootConfig b), Application (rootConfig b) \<noteq> None) \<and>
      ConfigtxManager bs h = Inr (configtxManager b)) \<and>
   (StableBundle bs h = Inl e \<longrightarrow>
      PolicyManager bs h = Inl e \<and> MSPManager bs h = Inl e \<and> ChannelConfig bs h = Inl e \<and>
      OrdererConfig bs h = Inl e \<and> ConsortiumsConfig bs h = Inl e \<and>
      ApplicationConfig bs h = Inl e \<and> ConfigtxManager bs h = Inl e)"
proof (intro conjI impI)
  assume "StableBundle bs h = Inl e"
  note p = accessors_panic [OF this]
  show "PolicyManager bs h = Inl e" by (rule p)
  show "MSPManager bs h = Inl e" by (rule p)
  show "ChannelConfig bs h = Inl e" by (rule p)
  show "OrdererConfig bs h = Inl e" by (rule p)
  show "ConsortiumsConfig bs h = Inl e" by (rule p)
  show "ApplicationConfig bs h = Inl e" by (rule p)
  show "ConfigtxManager bs h = Inl e" by (rule p)
next
  assume "StableBundle bs h = Inr p \<and> Bundle_deref p h = Inr b"
  then have "StableBundle bs h = Inr p" "Bundle_deref p h = Inr b"
    by simp_all
  note a = accessors_on [OF this]
  show "PolicyManager bs h = Inr (policyManager b)" by (rule a)
  show "MSPManager bs h = Inr (mspManager b)" by (rule a)
  show "ChannelConfig bs h = Inr (Channel (rootConfig b))" by (rule a)
  show "OrdererConfig bs h = Inr (Orderer (rootConfig b), Orderer (rootConfig b) \<noteq> None)"
    by (rule a)
  show "ConsortiumsConfig bs h =
        Inr (Consortiums (rootConfig b), Consortiums (rootConfig b) \<noteq> None)"
    by (rule a)
  show "ApplicationConfig bs h =
        Inr (Application (rootConfig b), Application (rootConfig b) \<noteq> None)"
    by (rule a)
  show "ConfigtxManager bs h = Inr (configtxManager b)" by (rule a)
qed

theorem accessors_read_the_stable_bundle_witness:
  "StableBundle (Some 0) heap_v1 = Inr (Some 0) \<and>
   Bundle_deref (Some 0) heap_v1 = Inr bundle_v1 \<and>
   PolicyManager (Some 0) heap_v1 = Inr (Some 10) \<and>
   MSPManager (Some 0) heap_v1 = Inr (Some 11) \<and>
   ChannelConfig (Some 0) heap_v1 = Inr (Some 12) \<and>
   OrdererConfig (Some 0) heap_v1 = Inr (Some 13, True) \<and>
   ConsortiumsConfig (Some 0) heap_v1 = Inr (None, False) \<and>
   ApplicationConfig (Some 0) heap_v1 = Inr (Some 14, True) \<and>
   ConfigtxManager (Some 0) heap_v1 = Inr (Some 15) \<and>
   StableBundle None heap_v1 = Inl NilDereference \<and>
   PolicyManager None heap_v1 = Inl NilDereference"
proof -
  note nil = StableBundle_nil_source [of heap_v1]
  have "PolicyManager None heap_v1 = Inl NilDereference"
    using accessors_read_the_stable_bundle [of None heap_v1 None bundle_v1 NilDereference] nil
    by blast
  moreover note
    accessors_read_the_stable_bundle [of "Some 0" heap_v1 "Some 0" bundle_v1 NilDereference]
  ultimately show ?thesis
    using scenario_StableBundle(1) scenario_deref(1) nil
    by (simp add: bundle_v1_fields)
qed

text \<open>
  C5. Two accessors of the source called one after the other need not read the same
  snapshot: when an \<open>Update\<close> to \<open>B\<close> falls between them, the first result is the field of
  the bundle \<open>A\<close> that was current and the second the field of \<open>B\<close>; when the components
  of \<open>A\<close> and \<open>B\<close> differ, neither bundle has both results.
\<close>

theorem back_to_back_accessors_mix_snapshots:
  assumes "StableBundle bs h = Inr pa" and "Bundle_deref pa h = Inr A"
    and "Bundle_deref pb h = Inr B"
    and "policyManager A \<noteq> policyManager B" and "mspManager A \<noteq> mspManager B"
  shows "\<exists>h' r1 r2. PolicyManager bs h = Inr r1 \<and> Update bs pb h = Inr h' \<and>
           MSPManager bs h' = Inr r2 \<and>
           r1 = policyManager A \<and> r2 = mspManager B \<and>
           \<not> (r1 = policyManager A \<and> r2 = mspManager A) \<and>
           \<not> (r1 = policyManager B \<and> r2 = mspManager B)"
proof -
  obtain h' where upd: "Update bs pb h = Inr h'"
    using Update_after_StableBundle [OF assms(1)] by blast
  have "StableBundle bs h' = Inr pb"
    using upd by (rule StableBundle_Update)
  moreover have "Bundle_deref pb h' = Inr B"
    using Bundle_deref_cong [OF Update_bundles [OF upd], of pb] assms(3) by simp
  ultimately have "MSPManager bs h' = Inr (mspManager B)"
    by (rule accessors_on(2))
  moreover have "PolicyManager bs h = Inr (policyManager A)"
    using assms(1,2) by (rule accessors_on(1))
  ultimately show ?thesis
    using upd assms(4,5) by simp
qed

theorem back_to_back_accessors_mix_snapshots_witness:
  "PolicyManager (Some 0) heap_v1 = Inr (Some 10) \<and>
   Update (Some 0) (Some 1) heap_v1 = Inr heap_v2 \<and>
   MSPManager (Some 0) heap_v2 = Inr (Some 21) \<and>
   (policyManager bundle_v1, mspManager bundle_v1) = (Some 10, Some 11) \<and>
   (policyManager bundle_v2, mspManager bundle_v2) = (Some 20, Some 21)"
proof -
  have "policyManager bundle_v1 \<noteq> policyManager bundle_v2"
    "mspManager bundle_v1 \<noteq> mspManager bundle_v2"
    by (simp_all add: bundle_v1_fields bundle_v2_fields)
  from back_to_back_accessors_mix_snapshots
    [OF scenario_StableBundle(1) scenario_deref(1) scenario_deref(2) this]
  obtain h' where "PolicyManager (Some 0) heap_v1 = Inr (policyManager bundle_v1)"
    "Update (Some 0) (Some 1) heap_v1 = Inr h'"
    "MSPManager (Some 0) h' = Inr (mspManager bundle_v2)"
    by blast
  moreover from this(2) have "h' = heap_v2"
    by (simp only: scenario_Update sum.inject)
  ultimately show ?thesis
    by (simp add: bundle_v1_fields bundle_v2_fields)
qed

text \<open>
  C6. Each optional-view accessor (\<open>OrdererConfig\<close>, \<open>ConsortiumsConfig\<close>,
  \<open>ApplicationConfig\<close>) returns the sub-view of the current bundle's root configuration
  and \<open>exists = True\<close> exactly when that sub-view is not nil; when it is absent the call
  returns normally, with nil and \<open>False\<close>.
\<close>

theorem optional_view_exists_iff_present:
  assumes "StableBundle bs h = Inr p" and "Bundle_deref p h = Inr b"
  shows "(\<exists>r ex. OrdererConfig bs h = Inr (r, ex) \<and> r = Orderer (rootConfig b) \<and>
            (ex \<longleftrightarrow> Orderer (rootConfig b) \<noteq> None) \<and>
            (Orderer (rootConfig b) = None \<longrightarrow> r = None \<and> \<not> ex)) \<and>
         (\<exists>r ex. ConsortiumsConfig bs h = Inr (r, ex) \<and> r = Consortiums (rootConfig b) \<and>
            (ex \<longleftrightarrow> Consortiums (rootConfig b) \<noteq> None) \<and>
            (Consortiums (rootConfig b) = None \<longrightarrow> r = None \<and> \<not> ex)) \<and>
         (\<exists>r ex. ApplicationConfig bs h = Inr (r, ex) \<and> r = Application (rootConfig b) \<and>
            (ex \<longleftrightarrow> Application (rootConfig b) \<noteq> None) \<and>
            (Application (rootConfig b) = None \<longrightarrow> r = None \<and> \<not> ex))"
  using accessors_on(4-6) [OF assms] by simp

theorem optional_view_exists_iff_present_witness:
  "OrdererConfig (Some 0) heap_v1 = Inr (Some 13, True) \<and>
   ConsortiumsConfig (Some 0) heap_v1 = Inr (None, False) \<and>
   ApplicationConfig (Some 0) heap_v1 = Inr (Some 14, True) \<and>
   OrdererConfig (Some 0) heap_v2 = Inr (None, False) \<and>
   ConsortiumsConfig (Some 0) heap_v2 = Inr (Some 23, True) \<and>
   ApplicationConfig (Some 0) heap_v2 = Inr (None, False)"
  using optional_view_exists_iff_present [OF scenario_StableBundle(1) scenario_deref(1)]
    optional_view_exists_iff_present [OF scenario_StableBundle(2) scenario_deref(4)]
  unfolding bundle_v1_fields bundle_v2_fields
  by auto

section \<open>A nil bundle\<close>

text \<open>
  C7, as stated, fails: neither \<open>NewBundleSource\<close> nor \<open>Update\<close> inspects its argument.
  Given a nil bundle both return normally with the nil pointer stored, \<open>StableBundle\<close>
  returns it, and the first accessor dereferences it.
\<close>

theorem nil_bundle_is_accepted_counterexample:
  "NewBundleSource None heap_v = Inr (Some 0, heap_nil) \<and>
   Update (Some 0) None heap_v1 = Inr heap_nil \<and>
   StableBundle (Some 0) heap_nil = Inr None \<and>
   PolicyManager (Some 0) heap_nil = Inl NilDereference"
  using scenario_New_nil scenario_Update_nil scenario_StableBundle(3)
    accessors_on_nil(1) [OF scenario_StableBundle(3)]
  by blast

text \<open>
  C7, amended. \<open>NewBundleSource\<close> and \<open>Update\<close> accept a nil bundle: the call succeeds and
  stores the nil pointer, \<open>StableBundle\<close> then returns nil without a panic, and the fault
  shows only at the later read, where each convenience accessor panics with a nil
  dereference.
\<close>

theorem nil_bundle_fault_is_deferred:
  "(\<exists>bs h'. NewBundleSource None h = Inr (bs, h') \<and> StableBundle bs h' = Inr None \<and>
      PolicyManager bs h' = Inl NilDereference \<and> MSPManager bs h' = Inl NilDereference \<and>
      ChannelConfig bs h' = Inl NilDereference \<and> OrdererConfig bs h' = Inl NilDereference \<and>
      ConsortiumsConfig bs h' = Inl NilDereference \<and>
      ApplicationConfig bs h' = Inl NilDereference \<and>
      ConfigtxManager bs h' = Inl NilDereference) \<and>
   (StableBundle bs0 h0 = Inr p \<longrightarrow>
     (\<exists>h1. Update bs0 None h0 = Inr h1 \<and> StableBundle bs0 h1 = Inr None \<and>
      PolicyManager bs0 h1 = Inl NilDereference \<and> MSPManager bs0 h1 = Inl NilDereference \<and>
      ChannelConfig bs0 h1 = Inl NilDereference \<and> OrdererConfig bs0 h1 = Inl NilDereference \<and>
      ConsortiumsConfig bs0 h1 = Inl NilDereference \<and>
      ApplicationConfig bs0 h1 = Inl NilDereference \<and>
      ConfigtxManager bs0 h1 = Inl NilDereference))"
proof (intro conjI impI)
  let ?bs = "Some (length (sources h))"
  let ?h' = "h\<lparr>sources := sources h @ [\<lparr>bundle_field = BundlePtr None\<rparr>]\<rparr>"
  have new: "NewBundleSource None h = Inr (?bs, ?h')"
    by (rule NewBundleSource_eq)
  have st: "StableBundle ?bs ?h' = Inr None"
    by (rule StableBundle_New)
  show "\<exists>bs h'. NewBundleSource None h = Inr (bs, h') \<and> StableBundle bs h' = Inr None \<and>
      PolicyManager bs h' = Inl NilDereference \<and> MSPManager bs h' = Inl NilDereference \<and>
      ChannelConfig bs h' = Inl NilDereference \<and> OrdererConfig bs h' = Inl NilDereference \<and>
      ConsortiumsConfig bs h' = Inl NilDereference \<and>
      ApplicationConfig bs h' = Inl NilDereference \<and>
      ConfigtxManager bs h' = Inl NilDereference"
    using new st accessors_on_nil [OF st] by blast
next
  assume "StableBundle bs0 h0 = Inr p"
  then obtain h1 where upd: "Update bs0 None h0 = Inr h1"
    using Update_after_StableBundle by blast
  then have st: "StableBundle bs0 h1 = Inr None"
    by (rule StableBundle_Update)
  show "\<exists>h1. Update bs0 None h0 = Inr h1 \<and> StableBundle bs0 h1 = Inr None \<and>
      PolicyManager bs0 h1 = Inl NilDereference \<and> MSPManager bs0 h1 = Inl NilDereference \<and>
      ChannelConfig bs0 h1 = Inl NilDereference \<and> OrdererConfig bs0 h1 = Inl NilDereference \<and>
      ConsortiumsConfig bs0 h1 = Inl NilDereference \<and>
      ApplicationConfig bs0 h1 = Inl NilDereference \<and>
      ConfigtxManager bs0 h1 = Inl NilDereference"
    using upd st accessors_on_nil [OF st] by blast
qed

theorem nil_bundle_fault_is_deferred_witness:
  "StableBundle (Some 0) heap_v1 = Inr (Some 0) \<and>
   Update (Some 0) None heap_v1 = Inr heap_nil \<and>
   StableBundle (Some 0) heap_nil = Inr None \<and>
   MSPManager (Some 0) heap_nil = Inl NilDereference \<and>
   OrdererConfig (Some 0) heap_nil = Inl NilDereference"
proof -
  from nil_bundle_fault_is_deferred [of heap_v "Some 0" heap_v1 "Some 0"]
    scenario_StableBundle(1)
  obtain h1 where "Update (Some 0) None heap_v1 = Inr h1" "StableBundle (Some 0) h1 = Inr None"
    "MSPManager (Some 0) h1 = Inl NilDereference" "OrdererConfig (Some 0) h1 = Inl NilDereference"
    by blast
  moreover from this(1) have "h1 = heap_nil"
    by (simp only: scenario_Update_nil sum.inject)
  ultimately show ?thesis
    using scenario_StableBundle(1) by blast
qed

section \<open>The slot across a sequence of updates\<close>

text \<open>
  C8. For a source built by \<open>NewBundleSource\<close> from a non-nil bundle and any finite sequence
  of \<open>Update\<close> calls with non-nil bundles, every call completes and the slot is not empty:
  \<open>StableBundle\<close> returns a non-nil bundle that was installed before, namely the last one.
\<close>

theorem slot_never_empty:
  assumes "b \<noteq> None" and "\<forall>n\<in>set ns. n \<noteq> None"
  shows "\<exists>bs h0 h' p. NewBundleSource b h = Inr (bs, h0) \<and> Updates bs ns h0 = Inr h' \<and>
           bundle_Load bs h' = Inr (BundlePtr p) \<and> StableBundle bs h' = Inr p \<and>
           p \<noteq> None \<and> p \<in> set (b # ns) \<and> p = last (b # ns)"
proof -
  let ?a = "length (sources h)"
  let ?h0 = "h\<lparr>sources := sources h @ [\<lparr>bundle_field = BundlePtr b\<rparr>]\<rparr>"
  obtain h' where run: "Updates (Some ?a) ns ?h0 = Inr h'" and len: "?a < length (sources h')"
    and slot: "bundle_field (sources h' ! ?a) = BundlePtr (last (b # ns))"
    using Updates_after_New [of h ns b] by blast
  have "last (b # ns) \<in> set (b # ns)"
    by (rule last_in_set) simp
  moreover from this have "last (b # ns) \<noteq> None"
    using assms by auto
  moreover have "bundle_Load (Some ?a) h' = Inr (BundlePtr (last (b # ns)))"
    using len slot by (simp add: bundle_Load_def BundleSource_deref_def Value_Load_def)
  moreover have "StableBundle (Some ?a) h' = Inr (last (b # ns))"
    using len slot by (simp add: StableBundle_at)
  ultimately show ?thesis
    using run NewBundleSource_eq [of b h] by blast
qed

theorem slot_never_empty_witness:
  "Some 0 \<noteq> (None :: ref) \<and> (None :: ref) \<notin> set [Some 1, Some 0, Some 1] \<and>
   NewBundleSource (Some 0) heap_v = Inr (Some 0, heap_v1) \<and>
   Updates (Some 0) [Some 1, Some 0, Some 1] heap_v1 = Inr heap_v2 \<and>
   StableBundle (Some 0) heap_v2 = Inr (Some 1)"
proof -
  have hyps: "Some 0 \<noteq> (None :: ref)" "\<forall>n\<in>set [Some 1, Some 0, Some 1]. n \<noteq> (None :: ref)"
    by simp_all
  from slot_never_empty [OF this, of heap_v]
  obtain bs h0 h' p where new: "NewBundleSource (Some 0) heap_v = Inr (bs, h0)"
    and run: "Updates bs [Some 1, Some 0, Some 1] h0 = Inr h'"
    and st: "StableBundle bs h' = Inr p" and p: "p = last [Some 0, Some 1, Some 0, Some 1]"
    by blast
  from new have "bs = Some 0" "h0 = heap_v1"
    by (simp_all only: scenario_New sum.inject prod.inject)
  with run have "h' = heap_v2"
    by (simp only: scenario_Updates sum.inject)
  with st p \<open>bs = Some 0\<close> have "StableBundle (Some 0) heap_v2 = Inr (Some 1)"
    by simp
  moreover have "(None :: ref) \<notin> set [Some 1, Some 0, Some 1]"
    by simp
  ultimately show ?thesis
    using hyps(1) scenario_New scenario_Updates by blast
qed

text \<open>
  C9. \<open>Update\<close> overwrites without looking at what the source held: a second update to \<open>b\<close>
  leaves the heap that the update to \<open>b\<close> alone would have left, updating twice to the
  same bundle is updating once, and the source after \<open>Update bs a\<close> holds \<open>a\<close> whatever it
  held before.
\<close>

theorem Update_last_writer_wins:
  assumes "Update bs a h = Inr h1"
  shows "(\<exists>h2. Update bs b h = Inr h2 \<and> Update bs b h1 = Inr h2) \<and>
         Update bs a h1 = Inr h1 \<and>
         BundleSource_deref bs h1 = Inr \<lparr>bundle_field = BundlePtr a\<rparr> \<and>
         StableBundle bs h1 = Inr a"
proof -
  from assms obtain x where bs: "bs = Some x" and x: "x < length (sources h)"
    and old: "bundle_field (sources h ! x) = NilIface \<or>
              (\<exists>q. bundle_field (sources h ! x) = BundlePtr q)"
    and h1: "h1 = h\<lparr>sources := (sources h)[x := \<lparr>bundle_field = BundlePtr a\<rparr>]\<rparr>"
    unfolding Update_Inr by blast
  let ?h2 = "h\<lparr>sources := (sources h)[x := \<lparr>bundle_field = BundlePtr b\<rparr>]\<rparr>"
  have "Update bs b h = Inr ?h2"
    unfolding Update_Inr using bs x old by blast
  moreover have "Update bs b h1 = Inr ?h2"
    unfolding Update_Inr using bs x h1 by simp
  moreover have "Update bs a h1 = Inr h1"
    unfolding Update_Inr using bs x h1 by simp
  moreover have "BundleSource_deref bs h1 = Inr \<lparr>bundle_field = BundlePtr a\<rparr>"
    using bs x h1 by (simp add: BundleSource_deref_def)
  moreover have "StableBundle bs h1 = Inr a"
    using assms by (rule StableBundle_Update)
  ultimately show ?thesis
    by blast
qed

theorem Update_last_writer_wins_witness:
  "Update (Some 0) (Some 1) heap_v1 = Inr heap_v2 \<and>
   Update (Some 0) (Some 0) heap_v1 = Inr heap_v1 \<and>
   Update (Some 0) (Some 0) heap_v2 = Inr heap_v1 \<and>
   Update (Some 0) (Some 1) heap_v2 = Inr heap_v2"
proof -
  have same: "Update (Some 0) (Some 0) heap_v1 = Inr heap_v1"
    by (simp add: Update_Inr heap_v1_def)
  from Update_last_writer_wins [OF scenario_Update, of "Some 0"]
  have "Update (Some 0) (Some 0) heap_v2 = Inr heap_v1" "Update (Some 0) (Some 1) heap_v2 = Inr heap_v2"
    using same by auto
  then show ?thesis
    using scenario_Update same by blast
qed

text \<open>
  C10. The assertion \<open>bs.bundle.Load().(*Bundle)\<close> cannot panic on a source that comes
  from \<open>NewBundleSource\<close>, whatever bundle (nil included) it was built from and whatever
  sequence of \<open>Update\<close> calls followed: the source is handed out with its slot already
  stored, every store succeeds, and the slot always holds a value of dynamic type
  \<open>*Bundle\<close>.
\<close>

theorem StableBundle_assertion_never_panics:
  "\<exists>bs h0 h' p. NewBundleSource b h = Inr (bs, h0) \<and> Updates bs ns h0 = Inr h' \<and>
     bundle_Load bs h' = Inr (BundlePtr p) \<and> StableBundle bs h' = Inr p"
proof -
  let ?a = "length (sources h)"
  let ?h0 = "h\<lparr>sources := sources h @ [\<lparr>bundle_field = BundlePtr b\<rparr>]\<rparr>"
  obtain h' where run: "Updates (Some ?a) ns ?h0 = Inr h'" and len: "?a < length (sources h')"
    and slot: "bundle_field (sources h' ! ?a) = BundlePtr (last (b # ns))"
    using Updates_after_New [of h ns b] by blast
  have "bundle_Load (Some ?a) h' = Inr (BundlePtr (last (b # ns)))"
    using len slot by (simp add: bundle_Load_def BundleSource_deref_def Value_Load_def)
  moreover have "StableBundle (Some ?a) h' = Inr (last (b # ns))"
    using len slot by (simp add: StableBundle_at)
  ultimately show ?thesis
    using run NewBundleSource_eq [of b h] by blast
qed

end
